theory Spec2Isabelle
  imports Complex_Main
begin

section \<open>The Python runtime the script relies on\<close>

text \<open>
  \<^verbatim>\<open>metrics.py\<close> is a Python 2 driver: it parses its options, builds the OS3E
  topology, computes the all-pairs path index, runs the enumerator or loads earlier
  results, optionally runs the heuristic selectors and optionally writes files.
  The exceptions its own statements can raise are values of \<open>py_error\<close>.
  Python floats are read as reals. The calls into networkx, \<^verbatim>\<open>metrics_lib\<close>,
  \<^verbatim>\<open>file_libs\<close> and the topology classes are recorded in the order they are made
  and taken to return; what they return, and what they do to the result store, is a
  parameter of the model.
\<close>

datatype py_error =
    OptionValueError  \<comment> \<open>optparse rejects an option value: it reports the error and exits\<close>
  | ValueError
  | KeyError string
  | ZeroDivisionError
  | UnboundLocalError string

text \<open>\<^verbatim>\<open>s.split(' ')\<close>: cut at every single space; empty pieces are kept.\<close>

fun split_on :: "char \<Rightarrow> string \<Rightarrow> string list" where
  "split_on c [] = [[]]"
| "split_on c (x # xs) =
     (if x = c then [] # split_on c xs
      else (case split_on c xs of
              [] \<Rightarrow> [[x]]
            | p # ps \<Rightarrow> (x # p) # ps))"

text \<open>
  \<^verbatim>\<open>int(s)\<close> on a string, base 10: surrounding whitespace is dropped, one sign is
  allowed, and at least one decimal digit must follow; anything else is a ValueError
  (\<open>None\<close> here). The suffix \<^verbatim>\<open>L\<close> that Python 2 lets through on a literal too
  large for a machine integer is left out.
\<close>

definition is_space :: "char \<Rightarrow> bool" where
  "is_space c = (c \<in> set [CHR '' '', CHR 0x09, CHR 0x0A, CHR 0x0B, CHR 0x0C, CHR 0x0D])"

definition strip :: "string \<Rightarrow> string" where
  "strip s = rev (dropWhile is_space (rev (dropWhile is_space s)))"

definition digit_of :: "char \<Rightarrow> nat option" where
  "digit_of c =
     (let n = (of_char c :: nat)
      in if 48 \<le> n \<and> n \<le> 57 then Some (n - 48) else None)"

fun digits_value :: "nat \<Rightarrow> string \<Rightarrow> nat option" where
  "digits_value acc [] = Some acc"
| "digits_value acc (c # cs) =
     (case digit_of c of
        None \<Rightarrow> None
      | Some d \<Rightarrow> digits_value (10 * acc + d) cs)"

definition unsigned_value :: "string \<Rightarrow> nat option" where
  "unsigned_value s = (if s = [] then None else digits_value 0 s)"

definition py_int :: "string \<Rightarrow> int option" where
  "py_int s =
     (case strip s of
        [] \<Rightarrow> None
      | c # r \<Rightarrow>
          if c = CHR ''-'' then map_option (\<lambda>n. - int n) (unsigned_value r)
          else if c = CHR ''+'' then map_option int (unsigned_value r)
          else map_option int (unsigned_value (c # r)))"

text \<open>\<^verbatim>\<open>"%s" % i\<close> for an integer: its decimal digits, with a minus sign when negative.\<close>

definition digit_char :: "nat \<Rightarrow> char" where
  "digit_char d = ''0123456789'' ! d"

function str_nat :: "nat \<Rightarrow> string" where
  "str_nat n =
     (if n < 10 then [digit_char n]
      else str_nat (n div 10) @ [digit_char (n mod 10)])"
  by pat_completeness auto
termination
  by (relation "measure id") auto

definition str_int :: "int \<Rightarrow> string" where
  "str_int i = (if i < 0 then CHR ''-'' # str_nat (nat (- i)) else str_nat (nat i))"

text \<open>\<^verbatim>\<open>range(a, b)\<close> of Python 2: the list a, a+1, ..., b-1 (empty when b \<le> a).\<close>

definition py_range :: "int \<Rightarrow> int \<Rightarrow> int list" where
  "py_range a b = [a..b - 1]"

text \<open>\<^verbatim>\<open>sum(xs)\<close>: a left fold of + from 0.\<close>

definition py_sum :: "real list \<Rightarrow> real" where
  "py_sum xs = foldl (+) 0 xs"


section \<open>Collaborators: topology, networkx, metrics_lib, file_libs\<close>

text \<open>
  A networkx graph as far as the driver looks at it: its nodes, and its edges in the
  order of \<^verbatim>\<open>g.edges()\<close>, each with the \<^verbatim>\<open>'weight'\<close> entry of its
  attribute dictionary when it has one.
\<close>

record edge =
  src :: string
  dst :: string
  weight :: "real option"

record graph =
  nodes :: "string list"
  edges :: "edge list"

definition number_of_nodes :: "graph \<Rightarrow> int" where
  "number_of_nodes g = int (length (nodes g))"

definition number_of_edges :: "graph \<Rightarrow> int" where
  "number_of_edges g = int (length (edges g))"

text \<open>
  What a networkx call returns is named by the call: the object built by
  \<^verbatim>\<open>nx.all_pairs_dijkstra_path_length(g)\<close> is the value
  \<open>all_pairs_dijkstra_path_length g\<close>, and so on. Two such values are the same object
  exactly when they come from the same call on the same graph.
\<close>

datatype path_index =
    all_pairs_dijkstra_path_length graph
  | all_pairs_dijkstra_path graph
  | all_pairs_shortest_path_length graph
  | all_pairs_shortest_path graph

datatype centrality =
    closeness_centrality graph bool
  | degree_centrality graph

text \<open>The module-level dictionary \<^verbatim>\<open>EXTRA_PARAMS\<close> (lines 90-93).\<close>

record params =
  link_fail_prob :: real
  max_failures :: int

definition EXTRA_PARAMS :: params where
  "EXTRA_PARAMS = \<lparr>link_fail_prob = 0.01, max_failures = 2\<rparr>"

text \<open>
  The argument list of the one call of \<^verbatim>\<open>metrics.run_all_combos\<close> (lines 156-159),
  each field named after the expression passed; the \<^verbatim>\<open>data\<close> argument is the
  result store of the state.
\<close>

record run_all_combos_args =
  arg_metrics :: "string list"
  arg_g :: graph
  arg_controllers :: "int list"
  arg_apsp :: path_index
  arg_apsp_paths :: path_index
  arg_weighted :: bool
  arg_write_dist :: bool
  arg_write_combos :: bool
  arg_extra_params :: params
  arg_processes :: int
  arg_multiprocess :: bool
  arg_chunksize :: int
  arg_median :: bool

text \<open>A line printed on standard output.\<close>

datatype line =
    Fixed6 real  \<comment> \<open>\<^verbatim>\<open>"%0.6f" % x\<close>\<close>
  | Text string

text \<open>
  Every call that leaves the file, in the order it is made. The result store
  \<^verbatim>\<open>data\<close> is a dictionary with string keys; \<open>'v\<close> is the type of its entries.
\<close>

datatype 'v event =
    New_OS3EWeightedGraph
  | New_OS3EGraph
  | Nx_path_index path_index
  | Nx_centrality centrality
  | Read_json_file string
  | Run_all_combos run_all_combos_args
  | Print line
  | Run_greedy_informed graph path_index bool
  | Run_greedy_alg_dict graph string string centrality path_index bool
  | Run_best_n graph path_index int bool
  | Run_worst_n graph path_index int bool
  | Write_json_file string "(string \<times> 'v) list"
  | Write_csv_file string 'v "string list"
  | Write_dist_csv_file string 'v "string list"

text \<open>
  What the driver takes from outside: the metric catalogue \<^verbatim>\<open>metrics.METRICS\<close>,
  the two topologies, the content of a JSON file, how a call of the enumerator or of a
  selector changes the result store it is handed, and the two readings of
  \<^verbatim>\<open>time.time()\<close> around the enumerator.
\<close>

record 'v world =
  METRICS :: "string list"
  OS3EWeightedGraph :: graph
  OS3EGraph :: graph
  read_json_file :: "string \<Rightarrow> (string \<times> 'v) list"
  effect :: "'v event \<Rightarrow> (string \<times> 'v) list \<Rightarrow> (string \<times> 'v) list"
  time_start :: real
  time_end :: real


section \<open>parse_args\<close>

text \<open>
  The values \<^verbatim>\<open>opts.parse_args()\<close> yields for the options of lines 20-70, and their
  defaults.
\<close>

record option_values =
  from_start :: int
  from_end :: int
  controller_list :: "string option"
  metric :: string
  all_metrics :: bool
  lat_metrics :: bool
  write_flag :: bool  \<comment> \<open>the option \<^verbatim>\<open>--write\<close>\<close>
  weighted :: bool
  median :: bool
  multiprocess :: bool
  processes :: int
  chunksize :: int
  write_combos :: bool
  write_dist :: bool
  dist_only :: bool
  use_prior_opts :: bool
  compute_start :: bool
  compute_end :: bool

definition defaults :: option_values where
  "defaults =
     \<lparr>from_start = 3, from_end = 0, controller_list = None, metric = ''latency'',
      all_metrics = False, lat_metrics = False, write_flag = False, weighted = False,
      median = False, multiprocess = True, processes = 4, chunksize = 50,
      write_combos = False, write_dist = False, dist_only = True,
      use_prior_opts = False, compute_start = True, compute_end = True\<rparr>"

text \<open>Lines 73-84 add two attributes to the option values.\<close>

record options = option_values +
  metrics :: "string list"
  controllers :: "int list option"

text \<open>The loop of lines 83-84: the first token \<^verbatim>\<open>int\<close> rejects raises ValueError.\<close>

fun parse_ints :: "string list \<Rightarrow> py_error + int list" where
  "parse_ints [] = Inr []"
| "parse_ints (t # ts) =
     (case py_int t of
        None \<Rightarrow> Inl ValueError
      | Some i \<Rightarrow>
          (case parse_ints ts of
             Inl e \<Rightarrow> Inl e
           | Inr is \<Rightarrow> Inr (i # is)))"

text \<open>
  The truth value of an optional string or list, as in
  \<^verbatim>\<open>if options.controller_list:\<close> and \<^verbatim>\<open>if options.controllers:\<close>: false for
  \<^verbatim>\<open>None\<close> and for the empty one.
\<close>

definition truthy :: "'a list option \<Rightarrow> bool" where
  "truthy s = (case s of None \<Rightarrow> False | Some t \<Rightarrow> t \<noteq> [])"

text \<open>
  \<^verbatim>\<open>parse_args\<close>. The option \<^verbatim>\<open>--metric\<close> has \<^verbatim>\<open>choices = metrics.METRICS\<close>:
  optparse rejects a value outside the catalogue while it parses (it checks a string
  default the same way).
\<close>

definition parse_args :: "'v world \<Rightarrow> option_values \<Rightarrow> py_error + options" where
  "parse_args w v =
     (if metric v \<notin> set (METRICS w) then Inl OptionValueError
      else
        let ms = (if all_metrics v then METRICS w
                  else if lat_metrics v then [''latency'', ''wc_latency'']
                  else [metric v])
        in if truthy (controller_list v) then
             (case parse_ints (split_on CHR '' '' (the (controller_list v))) of
                Inl e \<Rightarrow> Inl e
              | Inr cs \<Rightarrow> Inr (option_values.extend v (options.fields ms (Some cs))))
           else Inr (option_values.extend v (options.fields ms None)))"


section \<open>Metrics.__init__\<close>

text \<open>
  The state the constructor works on: the calls made so far, the result store
  \<^verbatim>\<open>data\<close>, and the module-level \<^verbatim>\<open>EXTRA_PARAMS\<close>, which line 147 overwrites.
\<close>

record 'v state =
  trace :: "'v event list"
  data :: "(string \<times> 'v) list"
  extra :: params

definition start :: "'v state" where
  "start = \<lparr>trace = [], data = [], extra = EXTRA_PARAMS\<rparr>"

text \<open>A call that only reads its arguments, and a call that is handed the result store.\<close>

definition log :: "'v event \<Rightarrow> 'v state \<Rightarrow> 'v state" where
  "log e s = s\<lparr>trace := trace s @ [e]\<rparr>"

definition call :: "'v world \<Rightarrow> 'v event \<Rightarrow> 'v state \<Rightarrow> 'v state" where
  "call w e s = s\<lparr>trace := trace s @ [e], data := effect w e (data s)\<rparr>"

text \<open>Lines 103-106.\<close>

definition new_graph :: "'v world \<Rightarrow> options \<Rightarrow> 'v state \<Rightarrow> graph \<times> 'v state" where
  "new_graph w options s =
     (if weighted options then (OS3EWeightedGraph w, log New_OS3EWeightedGraph s)
      else (OS3EGraph w, log New_OS3EGraph s))"

text \<open>Lines 108-119.\<close>

definition choose_controllers :: "options \<Rightarrow> graph \<Rightarrow> int list" where
  "choose_controllers options g =
     (if truthy (controllers options) then the (controllers options)
      else
        (if compute_start options then py_range 1 (from_start options + 1) else []) @
        (if compute_end options
         then py_range (number_of_nodes g - from_end options + 1) (number_of_nodes g + 1)
         else []))"

text \<open>Lines 121-132; \<open>prior_opts_filename\<close> is the local of line 126, unbound when weighted.\<close>

definition out_filename :: "options \<Rightarrow> int list \<Rightarrow> string" where
  "out_filename options cs =
     ''data_out/os3e_'' @
     (if weighted options then ''weighted'' else ''unweighted'') @
     (if truthy (controller_list options)
      then concat (map (\<lambda>c. ''_'' @ str_int c) cs)
      else ''_'' @ str_int (from_start options) @ ''_to_'' @ str_int (from_end options))"

definition prior_opts_filename :: "options \<Rightarrow> string option" where
  "prior_opts_filename options =
     (if weighted options then None else Some ''data_out/os3e_unweighted_9_9.json'')"

text \<open>
  Line 145: the weights of the edges, in the order of \<^verbatim>\<open>g.edges()\<close>; an edge whose
  attributes have no \<^verbatim>\<open>'weight'\<close> raises KeyError.
\<close>

fun edge_weights :: "edge list \<Rightarrow> py_error + real list" where
  "edge_weights [] = Inr []"
| "edge_weights (e # es) =
     (case weight e of
        None \<Rightarrow> Inl (KeyError ''weight'')
      | Some x \<Rightarrow>
          (case edge_weights es of
             Inl err \<Rightarrow> Inl err
           | Inr xs \<Rightarrow> Inr (x # xs)))"

text \<open>
  Lines 140-150: the path index, and in weighted mode the rescaling of
  \<^verbatim>\<open>EXTRA_PARAMS['link_fail_prob']\<close>. A float division by 0.0 raises
  ZeroDivisionError. The result is the pair \<^verbatim>\<open>apsp, apsp_paths\<close>.
\<close>

definition path_index_step ::
  "options \<Rightarrow> graph \<Rightarrow> 'v state \<Rightarrow> 'v state \<times> (py_error + path_index \<times> path_index)" where
  "path_index_step options g s =
     (if weighted options then
        let apsp = all_pairs_dijkstra_path_length g;
            s1 = log (Nx_path_index apsp) s;
            apsp_paths = all_pairs_dijkstra_path g;
            s2 = log (Nx_path_index apsp_paths) s1;
            link_fail_prob0 = link_fail_prob (extra s2)
        in (case edge_weights (edges g) of
              Inl e \<Rightarrow> (s2, Inl e)
            | Inr distances \<Rightarrow>
                if py_sum distances = 0 then (s2, Inl ZeroDivisionError)
                else
                  let weighted_link_fail_prob =
                        real_of_int (number_of_edges g) / py_sum distances * link_fail_prob0
                  in (s2\<lparr>extra := (extra s2)\<lparr>link_fail_prob := weighted_link_fail_prob\<rparr>\<rparr>,
                      Inr (apsp, apsp_paths)))
      else
        let apsp = all_pairs_shortest_path_length g;
            s1 = log (Nx_path_index apsp) s;
            apsp_paths = all_pairs_shortest_path g;
            s2 = log (Nx_path_index apsp_paths) s1
        in (s2, Inr (apsp, apsp_paths)))"

text \<open>Lines 152-161: load the earlier results, or run the enumerator and print how long it took.\<close>

definition compute_or_load ::
  "'v world \<Rightarrow> options \<Rightarrow> graph \<Rightarrow> int list \<Rightarrow> path_index \<Rightarrow> path_index \<Rightarrow>
   string option \<Rightarrow> 'v state \<Rightarrow> 'v state \<times> py_error option" where
  "compute_or_load w options g cs apsp apsp_paths PRIOR_OPTS_filename s =
     (if use_prior_opts options then
        (case PRIOR_OPTS_filename of
           None \<Rightarrow> (s, Some (UnboundLocalError ''PRIOR_OPTS_filename''))
         | Some f \<Rightarrow> ((log (Read_json_file f) s)\<lparr>data := read_json_file w f\<rparr>, None))
      else
        let s1 = call w (Run_all_combos
                   \<lparr>arg_metrics = metrics options, arg_g = g, arg_controllers = cs,
                    arg_apsp = apsp, arg_apsp_paths = apsp_paths,
                    arg_weighted = weighted options, arg_write_dist = write_dist options,
                    arg_write_combos = write_combos options, arg_extra_params = extra s,
                    arg_processes = processes options,
                    arg_multiprocess = multiprocess options,
                    arg_chunksize = chunksize options, arg_median = median options\<rparr>) s;
            total_duration = time_end w - time_start w
        in (log (Print (Fixed6 total_duration)) s1, None))"

text \<open>Lines 163-169: the heuristic selectors.\<close>

definition best_and_worst :: "'v world \<Rightarrow> graph \<Rightarrow> path_index \<Rightarrow> bool \<Rightarrow> 'v state \<Rightarrow> int \<Rightarrow> 'v state" where
  "best_and_worst w g apsp wt s i =
     call w (Run_worst_n g apsp i wt) (call w (Run_best_n g apsp i wt) s)"

definition run_selectors :: "'v world \<Rightarrow> options \<Rightarrow> graph \<Rightarrow> path_index \<Rightarrow> 'v state \<Rightarrow> 'v state" where
  "run_selectors w options g apsp s =
     (if \<not> dist_only options then
        let wt = weighted options;
            s1 = call w (Run_greedy_informed g apsp wt) s;
            cc = closeness_centrality g wt;
            s2 = log (Nx_centrality cc) s1;
            s3 = call w (Run_greedy_alg_dict g ''greedy-cc'' ''latency'' cc apsp wt) s2;
            dc = degree_centrality g;
            s4 = log (Nx_centrality dc) s3;
            s5 = call w (Run_greedy_alg_dict g ''greedy-dc'' ''latency'' dc apsp wt) s4
        in foldl (best_and_worst w g apsp wt) s5 [10, 100, 1000]
      else s)"

text \<open>Lines 174-176: the columns left out of the CSV files.\<close>

definition exclude :: "options \<Rightarrow> string list" where
  "exclude options =
     [''distribution'', ''metric'', ''group'', ''id''] @
     (if \<not> write_combos options then [''highest_combo'', ''lowest_combo''] else [])"

text \<open>
  \<^verbatim>\<open>data["data"]\<close>: the entry of the result store, KeyError when there is none.
\<close>

definition subscript :: "(string \<times> 'v) list \<Rightarrow> string \<Rightarrow> py_error + 'v" where
  "subscript d k = (case map_of d k of None \<Rightarrow> Inl (KeyError k) | Some v \<Rightarrow> Inr v)"

text \<open>Lines 181-185.\<close>

definition write_outputs :: "options \<Rightarrow> string \<Rightarrow> 'v state \<Rightarrow> 'v state \<times> py_error option" where
  "write_outputs options filename s =
     (if write_flag options then
        let s1 = log (Write_json_file (filename @ ''.json'') (data s)) s
        in (case subscript (data s1) ''data'' of
              Inl e \<Rightarrow> (s1, Some e)
            | Inr d \<Rightarrow>
                let s2 = log (Write_csv_file filename d (exclude options)) s1
                in if write_dist options then
                     (case subscript (data s2) ''data'' of
                        Inl e \<Rightarrow> (s2, Some e)
                      | Inr d' \<Rightarrow>
                          (log (Write_dist_csv_file (filename @ ''_dist'') d' (exclude options)) s2,
                           None))
                   else (s2, None))
      else (s, None))"

text \<open>
  The constructor, on the option values of the command line: the calls made, the result
  store and \<^verbatim>\<open>EXTRA_PARAMS\<close> at the end, and the exception that ended it, if any.
\<close>

definition body :: "'v world \<Rightarrow> options \<Rightarrow> 'v state \<times> py_error option" where
  "body w options =
     (let (g, s1) = new_graph w options start;
          cs = choose_controllers options g;
          filename = out_filename options cs;
          PRIOR_OPTS_filename = prior_opts_filename options;
          s2 = s1\<lparr>data := []\<rparr>
      in (case path_index_step options g s2 of
            (s3, Inl e) \<Rightarrow> (s3, Some e)
          | (s3, Inr (apsp, apsp_paths)) \<Rightarrow>
              (case compute_or_load w options g cs apsp apsp_paths PRIOR_OPTS_filename s3 of
                 (s4, Some e) \<Rightarrow> (s4, Some e)
               | (s4, None) \<Rightarrow>
                   let s5 = run_selectors w options g apsp s4;
                       s6 = log (Print (Text (replicate 67 CHR ''*''))) s5
                   in write_outputs options filename s6)))"

definition Metrics_init :: "'v world \<Rightarrow> option_values \<Rightarrow> 'v state \<times> py_error option" where
  "Metrics_init w argv =
     (case parse_args w argv of
        Inl e \<Rightarrow> (start, Some e)
      | Inr options \<Rightarrow> body w options)"


section \<open>Reading a run\<close>

text \<open>
  Names for what the statements below talk about: the kinds of call in a trace, and the
  graph, the path index and the selector calls a run of a given mode works with.
\<close>

fun is_selector :: "'v event \<Rightarrow> bool" where
  "is_selector (Run_greedy_informed g p b) = True"
| "is_selector (Run_greedy_alg_dict g l m c p b) = True"
| "is_selector (Run_best_n g p n b) = True"
| "is_selector (Run_worst_n g p n b) = True"
| "is_selector _ = False"

text \<open>The distance index a selector call is handed.\<close>

fun selector_apsp :: "'v event \<Rightarrow> path_index option" where
  "selector_apsp (Run_greedy_informed g p b) = Some p"
| "selector_apsp (Run_greedy_alg_dict g l m c p b) = Some p"
| "selector_apsp (Run_best_n g p n b) = Some p"
| "selector_apsp (Run_worst_n g p n b) = Some p"
| "selector_apsp _ = None"

fun is_path_index_call :: "'v event \<Rightarrow> bool" where
  "is_path_index_call (Nx_path_index p) = True"
| "is_path_index_call _ = False"

fun is_write :: "'v event \<Rightarrow> bool" where
  "is_write (Write_json_file f d) = True"
| "is_write (Write_csv_file f d x) = True"
| "is_write (Write_dist_csv_file f d x) = True"
| "is_write _ = False"

fun is_numeric_line :: "'v event \<Rightarrow> bool" where
  "is_numeric_line (Print (Fixed6 x)) = True"
| "is_numeric_line _ = False"

definition graph_of :: "'v world \<Rightarrow> bool \<Rightarrow> graph" where
  "graph_of w wt = (if wt then OS3EWeightedGraph w else OS3EGraph w)"

definition apsp_of :: "'v world \<Rightarrow> bool \<Rightarrow> path_index" where
  "apsp_of w wt =
     (if wt then all_pairs_dijkstra_path_length (graph_of w wt)
      else all_pairs_shortest_path_length (graph_of w wt))"

definition apsp_paths_of :: "'v world \<Rightarrow> bool \<Rightarrow> path_index" where
  "apsp_paths_of w wt =
     (if wt then all_pairs_dijkstra_path (graph_of w wt)
      else all_pairs_shortest_path (graph_of w wt))"

text \<open>The three calls every run starts with once its options are parsed.\<close>

definition prelude :: "'v world \<Rightarrow> bool \<Rightarrow> 'v event list" where
  "prelude w wt =
     [if wt then New_OS3EWeightedGraph else New_OS3EGraph,
      Nx_path_index (apsp_of w wt), Nx_path_index (apsp_paths_of w wt)]"

text \<open>The selector calls of lines 164-169, in order.\<close>

definition selector_calls :: "graph \<Rightarrow> path_index \<Rightarrow> bool \<Rightarrow> 'v event list" where
  "selector_calls g apsp wt =
     [Run_greedy_informed g apsp wt,
      Run_greedy_alg_dict g ''greedy-cc'' ''latency'' (closeness_centrality g wt) apsp wt,
      Run_greedy_alg_dict g ''greedy-dc'' ''latency'' (degree_centrality g) apsp wt,
      Run_best_n g apsp 10 wt, Run_worst_n g apsp 10 wt,
      Run_best_n g apsp 100 wt, Run_worst_n g apsp 100 wt,
      Run_best_n g apsp 1000 wt, Run_worst_n g apsp 1000 wt]"

definition stars :: "'v event" where
  "stars = Print (Text (replicate 67 CHR ''*''))"


section \<open>A small instance\<close>

text \<open>
  Three nodes on a line. The weighted topology has weights 2 and 3, the unweighted one
  has none; the catalogue has three metrics; every call that is handed the result store
  adds one \<^verbatim>\<open>'data'\<close> entry to it.
\<close>

definition example_weighted :: graph where
  "example_weighted =
     \<lparr>nodes = [''a'', ''b'', ''c''],
      edges = [\<lparr>src = ''a'', dst = ''b'', weight = Some 2\<rparr>,
               \<lparr>src = ''b'', dst = ''c'', weight = Some 3\<rparr>]\<rparr>"

definition example_unweighted :: graph where
  "example_unweighted =
     \<lparr>nodes = [''a'', ''b'', ''c''],
      edges = [\<lparr>src = ''a'', dst = ''b'', weight = None\<rparr>,
               \<lparr>src = ''b'', dst = ''c'', weight = None\<rparr>]\<rparr>"

definition example_world :: "nat world" where
  "example_world =
     \<lparr>METRICS = [''latency'', ''wc_latency'', ''fairness''],
      OS3EWeightedGraph = example_weighted,
      OS3EGraph = example_unweighted,
      read_json_file = (\<lambda>f. [(''data'', 7)]),
      effect = (\<lambda>e d. (''data'', length d) # d),
      time_start = 1,
      time_end = 3\<rparr>"


section \<open>Facts about the pieces\<close>

declare str_nat.simps [simp del]

lemma parse_args_fields:
  assumes "parse_args w v = Inr opts"
  shows "from_start opts = from_start v" "from_end opts = from_end v"
    "controller_list opts = controller_list v" "metric opts = metric v"
    "all_metrics opts = all_metrics v" "lat_metrics opts = lat_metrics v"
    "write_flag opts = write_flag v" "weighted opts = weighted v"
    "median opts = median v" "multiprocess opts = multiprocess v"
    "processes opts = processes v" "chunksize opts = chunksize v"
    "write_combos opts = write_combos v" "write_dist opts = write_dist v"
    "dist_only opts = dist_only v" "use_prior_opts opts = use_prior_opts v"
    "compute_start opts = compute_start v" "compute_end opts = compute_end v"
  using assms
  by (auto simp: parse_args_def Let_def option_values.defs options.defs
      split: if_splits sum.splits)

lemma parse_args_metrics:
  assumes "parse_args w v = Inr opts"
  shows "metrics opts =
     (if all_metrics v then METRICS w
      else if lat_metrics v then [''latency'', ''wc_latency'']
      else [metric v])"
  using assms
  by (auto simp: parse_args_def Let_def option_values.defs options.defs
      split: if_splits sum.splits)

lemma parse_args_controllers:
  assumes "parse_args w v = Inr opts"
  shows "controllers opts =
     (if truthy (controller_list v)
      then (case parse_ints (split_on CHR '' '' (the (controller_list v))) of
              Inr cs \<Rightarrow> Some cs
            | Inl e \<Rightarrow> None)
      else None)"
  using assms
  by (auto simp: parse_args_def Let_def option_values.defs options.defs
      split: if_splits sum.splits)

lemma parse_ints_Inr: "parse_ints ts = Inr cs \<Longrightarrow> map py_int ts = map Some cs"
  by (induction ts arbitrary: cs) (auto split: option.splits sum.splits)

lemma parse_ints_Inl:
  "parse_ints ts = Inl e \<Longrightarrow> e = ValueError \<and> (\<exists>t \<in> set ts. py_int t = None)"
  by (induction ts) (auto split: option.splits sum.splits)

lemma parse_ints_bad: "t \<in> set ts \<Longrightarrow> py_int t = None \<Longrightarrow> parse_ints ts = Inl ValueError"
  by (induction ts) (auto split: option.splits sum.splits dest: parse_ints_Inl)

lemma parse_args_errors:
  "parse_args w v = Inl e \<Longrightarrow> e = OptionValueError \<or> e = ValueError"
  by (auto simp: parse_args_def Let_def split: if_splits sum.splits dest: parse_ints_Inl)

lemma split_on_nonempty: "split_on c s \<noteq> []"
  by (induction s) (auto split: list.splits)

lemma edge_weights_Inr: "edge_weights es = Inr ws \<Longrightarrow> map weight es = map Some ws"
  by (induction es arbitrary: ws) (auto split: option.splits sum.splits)

lemma edge_weights_err: "edge_weights es = Inl e \<Longrightarrow> e = KeyError ''weight''"
  by (induction es) (auto split: option.splits sum.splits)

lemma edge_weights_Some: "map weight es = map Some ws \<Longrightarrow> edge_weights es = Inr ws"
  by (induction es arbitrary: ws) (auto split: option.splits sum.splits)

lemma foldl_plus: "foldl (+) a xs = a + sum_list xs" for a :: real
  by (induction xs arbitrary: a) auto

lemma py_sum_sum_list: "py_sum xs = sum_list xs"
  by (simp add: py_sum_def foldl_plus)

lemmas model_defs = body_def new_graph_def start_def log_def call_def
  path_index_step_def compute_or_load_def run_selectors_def write_outputs_def
  best_and_worst_def prior_opts_filename_def subscript_def

lemmas reading_defs = graph_of_def apsp_of_def apsp_paths_of_def prelude_def stars_def

text \<open>Unfolding sets for running the model on the small instance.\<close>

lemmas py_int_defs = py_int_def strip_def is_space_def unsigned_value_def digit_of_def

lemmas parse_defs = parse_args_def truthy_def example_world_def defaults_def
  option_values.defs options.defs py_int_defs

lemmas body_defs = model_defs Let_def choose_controllers_def out_filename_def truthy_def
  EXTRA_PARAMS_def py_range_def py_sum_def number_of_nodes_def number_of_edges_def
  example_world_def example_weighted_def example_unweighted_def

lemmas example_defs = example_world_def example_weighted_def example_unweighted_def
  defaults_def Metrics_init_def parse_args_def truthy_def model_defs Let_def
  choose_controllers_def out_filename_def EXTRA_PARAMS_def py_range_def py_sum_def
  number_of_nodes_def number_of_edges_def option_values.defs options.defs

lemma Metrics_init_parsed:
  "parse_args w argv = Inr opts \<Longrightarrow> Metrics_init w argv = body w opts"
  by (simp add: Metrics_init_def)

lemma Metrics_init_rejected:
  "parse_args w argv = Inl e \<Longrightarrow> Metrics_init w argv = (start, Some e)"
  by (simp add: Metrics_init_def)

lemma event_parsed:
  assumes "ev \<in> set (trace (fst (Metrics_init w argv)))"
  obtains opts where "parse_args w argv = Inr opts" "ev \<in> set (trace (fst (body w opts)))"
  using assms by (cases "parse_args w argv") (auto simp: Metrics_init_def start_def)

text \<open>The one call of the enumerator, argument by argument.\<close>

lemma body_Run_all_combos:
  assumes "Run_all_combos a \<in> set (trace (fst (body w opts)))"
  shows "\<not> use_prior_opts opts"
    and "arg_metrics a = metrics opts"
    and "arg_g a = (if weighted opts then OS3EWeightedGraph w else OS3EGraph w)"
    and "arg_controllers a =
           choose_controllers opts (if weighted opts then OS3EWeightedGraph w else OS3EGraph w)"
    and "arg_weighted a = weighted opts"
    and "arg_write_dist a = write_dist opts"
    and "arg_write_combos a = write_combos opts"
    and "arg_processes a = processes opts"
    and "arg_multiprocess a = multiprocess opts"
    and "arg_chunksize a = chunksize opts"
    and "arg_median a = median opts"
    and "max_failures (arg_extra_params a) = 2"
  using assms
  by (auto simp: model_defs Let_def EXTRA_PARAMS_def
      split: if_splits sum.splits option.splits prod.splits)

lemma body_Run_all_combos_prob:
  assumes "Run_all_combos a \<in> set (trace (fst (body w opts)))"
  shows "if weighted opts
         then \<exists>ws. map weight (edges (OS3EWeightedGraph w)) = map Some ws \<and>
                sum_list ws \<noteq> 0 \<and>
                link_fail_prob (arg_extra_params a) =
                  real_of_int (number_of_edges (OS3EWeightedGraph w)) / sum_list ws * 0.01
         else link_fail_prob (arg_extra_params a) = 0.01"
  using assms
  by (auto simp: model_defs Let_def EXTRA_PARAMS_def py_sum_sum_list
      split: if_splits sum.splits option.splits prod.splits dest!: edge_weights_Inr)

lemma body_Run_all_combos_index:
  assumes "Run_all_combos a \<in> set (trace (fst (body w opts)))"
  shows "arg_apsp a = apsp_of w (weighted opts)"
    and "arg_apsp_paths a = apsp_paths_of w (weighted opts)"
  using assms
  by (auto simp: model_defs reading_defs Let_def
      split: if_splits sum.splits option.splits prod.splits)

lemma map_Some_set: "map f ts = map Some cs \<Longrightarrow> set cs = {i. \<exists>t \<in> set ts. f t = Some i}"
proof -
  assume "map f ts = map Some cs"
  then have "f ` set ts = Some ` set cs" by (metis list.set_map)
  then show ?thesis by (auto simp: image_iff) (metis image_iff option.inject)+
qed

lemma parse_args_tokens:
  assumes "parse_args w v = Inr opts" and "truthy (controller_list v)"
  shows "\<exists>cs. parse_ints (split_on CHR '' '' (the (controller_list v))) = Inr cs \<and>
              controllers opts = Some cs \<and> cs \<noteq> []"
proof -
  from assms obtain cs
    where cs: "parse_ints (split_on CHR '' '' (the (controller_list v))) = Inr cs"
      and c: "controllers opts = Some cs"
    by (auto simp: parse_args_def Let_def option_values.defs options.defs
        split: if_splits sum.splits)
  from parse_ints_Inr[OF cs]
  have "length cs = length (split_on CHR '' '' (the (controller_list v)))"
    by (metis length_map)
  with split_on_nonempty have "cs \<noteq> []" by (metis length_0_conv)
  with cs c show ?thesis by blast
qed

lemma set_py_range: "set (py_range a (b + 1)) = {a..b}"
  by (simp add: py_range_def)

text \<open>What each of the last three steps adds to the trace and to the store.\<close>

lemma log_simps: "trace (log e s) = trace s @ [e]" "data (log e s) = data s"
  by (simp_all add: log_def)

lemma run_selectors_trace:
  "trace (run_selectors w opts g apsp s) =
     trace s @
     (if dist_only opts then []
      else [Run_greedy_informed g apsp (weighted opts),
            Nx_centrality (closeness_centrality g (weighted opts)),
            Run_greedy_alg_dict g ''greedy-cc'' ''latency''
              (closeness_centrality g (weighted opts)) apsp (weighted opts),
            Nx_centrality (degree_centrality g),
            Run_greedy_alg_dict g ''greedy-dc'' ''latency''
              (degree_centrality g) apsp (weighted opts),
            Run_best_n g apsp 10 (weighted opts), Run_worst_n g apsp 10 (weighted opts),
            Run_best_n g apsp 100 (weighted opts), Run_worst_n g apsp 100 (weighted opts),
            Run_best_n g apsp 1000 (weighted opts), Run_worst_n g apsp 1000 (weighted opts)])"
  by (simp add: run_selectors_def best_and_worst_def call_def log_def Let_def)

lemma run_selectors_filter:
  "filter is_selector (trace (run_selectors w opts g apsp s)) =
   filter is_selector (trace s) @
     (if dist_only opts then [] else selector_calls g apsp (weighted opts))"
  by (simp add: run_selectors_trace selector_calls_def)

lemma write_outputs_trace:
  "trace (fst (write_outputs opts fn s)) =
     trace s @
     (if write_flag opts
      then Write_json_file (fn @ ''.json'') (data s) #
           (case map_of (data s) ''data'' of
              None \<Rightarrow> []
            | Some v \<Rightarrow>
                Write_csv_file fn v (exclude opts) #
                (if write_dist opts then [Write_dist_csv_file (fn @ ''_dist'') v (exclude opts)]
                 else []))
      else [])"
  by (simp add: write_outputs_def subscript_def log_def Let_def split: option.splits)

lemma write_outputs_error:
  "snd (write_outputs opts fn s) =
     (if write_flag opts \<and> map_of (data s) ''data'' = None then Some (KeyError ''data'')
      else None)"
  by (simp add: write_outputs_def subscript_def log_def Let_def split: option.splits)

lemma write_outputs_data: "data (fst (write_outputs opts fn s)) = data s"
  by (simp add: write_outputs_def subscript_def log_def Let_def split: option.splits)

lemma write_outputs_filter_selector:
  "filter is_selector (trace (fst (write_outputs opts fn s))) = filter is_selector (trace s)"
  by (simp add: write_outputs_trace split: option.splits)

lemmas finish_simps = write_outputs_trace write_outputs_error write_outputs_data log_simps
  run_selectors_trace stars_def

text \<open>
  The four ways the constructor can go once the options are parsed: the weights of the
  weighted topology cannot be summed or sum to zero; the name of the earlier result file
  is unbound; the earlier results are loaded; the enumerator runs.
\<close>

lemma body_outcome_disj:
  fixes w :: "'v world" and opts :: options
  defines "wt \<equiv> weighted opts"
  defines "fn \<equiv> out_filename opts (choose_controllers opts (graph_of w wt))"
  shows "(\<exists>e. wt \<and> (e = KeyError ''weight'' \<or> e = ZeroDivisionError) \<and>
              (\<forall>ws. map weight (edges (OS3EWeightedGraph w)) = map Some ws \<longrightarrow>
                    sum_list ws = 0) \<and>
              body w opts = (\<lparr>trace = prelude w wt, data = [], extra = EXTRA_PARAMS\<rparr>, Some e)) \<or>
         (\<exists>x. wt \<and> use_prior_opts opts \<and>
              body w opts = (\<lparr>trace = prelude w wt, data = [], extra = x\<rparr>,
                             Some (UnboundLocalError ''PRIOR_OPTS_filename''))) \<or>
         (\<not> wt \<and> use_prior_opts opts \<and>
          body w opts =
            write_outputs opts fn (log stars (run_selectors w opts (graph_of w wt) (apsp_of w wt)
              \<lparr>trace = prelude w wt @ [Read_json_file ''data_out/os3e_unweighted_9_9.json''],
               data = read_json_file w ''data_out/os3e_unweighted_9_9.json'',
               extra = EXTRA_PARAMS\<rparr>))) \<or>
         (\<exists>a x. \<not> use_prior_opts opts \<and>
              body w opts =
                write_outputs opts fn (log stars (run_selectors w opts (graph_of w wt) (apsp_of w wt)
                  \<lparr>trace = prelude w wt @
                             [Run_all_combos a, Print (Fixed6 (time_end w - time_start w))],
                   data = effect w (Run_all_combos a) [],
                   extra = x\<rparr>)))"
  unfolding wt_def fn_def reading_defs
  by (cases "weighted opts"; cases "use_prior_opts opts";
      cases "edge_weights (edges (OS3EWeightedGraph w))")
     (auto simp: body_def new_graph_def start_def log_def call_def path_index_step_def
        compute_or_load_def prior_opts_filename_def Let_def py_sum_sum_list
        dest: edge_weights_err edge_weights_Some)

lemma body_outcome [case_names path_error unbound loaded computed]:
  fixes w :: "'v world" and opts :: options
  obtains
    (path_error) e where "weighted opts" "e = KeyError ''weight'' \<or> e = ZeroDivisionError"
      "\<forall>ws. map weight (edges (OS3EWeightedGraph w)) = map Some ws \<longrightarrow> sum_list ws = 0"
      "body w opts =
         (\<lparr>trace = prelude w (weighted opts), data = [], extra = EXTRA_PARAMS\<rparr>, Some e)"
  | (unbound) x where "weighted opts" "use_prior_opts opts"
      "body w opts =
         (\<lparr>trace = prelude w (weighted opts), data = [], extra = x\<rparr>,
          Some (UnboundLocalError ''PRIOR_OPTS_filename''))"
  | (loaded) s where "\<not> weighted opts" "use_prior_opts opts"
      "trace s = prelude w (weighted opts) @
                 [Read_json_file ''data_out/os3e_unweighted_9_9.json'']"
      "data s = read_json_file w ''data_out/os3e_unweighted_9_9.json''"
      "body w opts =
         write_outputs opts
           (out_filename opts (choose_controllers opts (graph_of w (weighted opts))))
           (log stars (run_selectors w opts (graph_of w (weighted opts))
              (apsp_of w (weighted opts)) s))"
  | (computed) a s where "\<not> use_prior_opts opts"
      "trace s = prelude w (weighted opts) @
                 [Run_all_combos a, Print (Fixed6 (time_end w - time_start w))]"
      "data s = effect w (Run_all_combos a) []"
      "body w opts =
         write_outputs opts
           (out_filename opts (choose_controllers opts (graph_of w (weighted opts))))
           (log stars (run_selectors w opts (graph_of w (weighted opts))
              (apsp_of w (weighted opts)) s))"
proof -
  from body_outcome_disj[of opts w] consider
    (1) e where "weighted opts" "e = KeyError ''weight'' \<or> e = ZeroDivisionError"
      "\<forall>ws. map weight (edges (OS3EWeightedGraph w)) = map Some ws \<longrightarrow> sum_list ws = 0"
      "body w opts =
         (\<lparr>trace = prelude w (weighted opts), data = [], extra = EXTRA_PARAMS\<rparr>, Some e)"
  | (2) x where "weighted opts" "use_prior_opts opts"
      "body w opts =
         (\<lparr>trace = prelude w (weighted opts), data = [], extra = x\<rparr>,
          Some (UnboundLocalError ''PRIOR_OPTS_filename''))"
  | (3) "\<not> weighted opts" "use_prior_opts opts"
      "body w opts =
         write_outputs opts
           (out_filename opts (choose_controllers opts (graph_of w (weighted opts))))
           (log stars (run_selectors w opts (graph_of w (weighted opts))
              (apsp_of w (weighted opts))
              \<lparr>trace = prelude w (weighted opts) @
                         [Read_json_file ''data_out/os3e_unweighted_9_9.json''],
               data = read_json_file w ''data_out/os3e_unweighted_9_9.json'',
               extra = EXTRA_PARAMS\<rparr>))"
  | (4) a x where "\<not> use_prior_opts opts"
      "body w opts =
         write_outputs opts
           (out_filename opts (choose_controllers opts (graph_of w (weighted opts))))
           (log stars (run_selectors w opts (graph_of w (weighted opts))
              (apsp_of w (weighted opts))
              \<lparr>trace = prelude w (weighted opts) @
                         [Run_all_combos a, Print (Fixed6 (time_end w - time_start w))],
               data = effect w (Run_all_combos a) [],
               extra = x\<rparr>))"
    by blast
  then show thesis
  proof cases
    case 1 then show ?thesis by (rule path_error)
  next
    case 2 then show ?thesis by (rule unbound)
  next
    case 3 show ?thesis by (rule loaded[OF 3(1,2) _ _ 3(3)]) simp_all
  next
    case 4 show ?thesis by (rule computed[OF 4(1) _ _ 4(2)]) simp_all
  qed
qed

lemma filter_selector_prelude: "filter is_selector (prelude w wt) = []"
  by (simp add: prelude_def)

lemma body_selectors:
  "filter is_selector (trace (fst (body w opts))) =
     (if \<not> dist_only opts \<and>
         (snd (body w opts) = None \<or> snd (body w opts) = Some (KeyError ''data''))
      then selector_calls (graph_of w (weighted opts)) (apsp_of w (weighted opts))
             (weighted opts)
      else [])"
proof (cases rule: body_outcome[of opts w])
  case (path_error e)
  then show ?thesis by (auto simp: filter_selector_prelude)
next
  case (unbound x)
  then show ?thesis by (simp add: filter_selector_prelude)
next
  case (loaded s)
  then show ?thesis
    by (simp add: write_outputs_filter_selector write_outputs_error log_simps stars_def
        run_selectors_filter filter_selector_prelude)
next
  case (computed a s)
  then show ?thesis
    by (simp add: write_outputs_filter_selector write_outputs_error log_simps stars_def
        run_selectors_filter filter_selector_prelude)
qed

lemma body_path_index:
  "filter is_path_index_call (trace (fst (body w opts))) =
     [Nx_path_index (apsp_of w (weighted opts)), Nx_path_index (apsp_paths_of w (weighted opts))]"
  "take 3 (trace (fst (body w opts))) = prelude w (weighted opts)"
  "\<forall>e \<in> set (trace (fst (body w opts))).
     is_selector e \<longrightarrow> selector_apsp e = Some (apsp_of w (weighted opts))"
proof -
  have p: "filter is_path_index_call (prelude w wt) =
      [Nx_path_index (apsp_of w wt), Nx_path_index (apsp_paths_of w wt)]"
    "take 3 (prelude w wt) = prelude w wt" "length (prelude w wt) = 3"
    "\<forall>e \<in> set (prelude w wt). \<not> is_selector e" for wt
    by (simp_all add: prelude_def)
  show "filter is_path_index_call (trace (fst (body w opts))) =
     [Nx_path_index (apsp_of w (weighted opts)), Nx_path_index (apsp_paths_of w (weighted opts))]"
    by (cases rule: body_outcome[of opts w])
       (simp_all add: finish_simps p split: option.splits)
  show "take 3 (trace (fst (body w opts))) = prelude w (weighted opts)"
    by (cases rule: body_outcome[of opts w])
       (simp_all add: finish_simps p split: option.splits)
  show "\<forall>e \<in> set (trace (fst (body w opts))).
     is_selector e \<longrightarrow> selector_apsp e = Some (apsp_of w (weighted opts))"
    by (cases rule: body_outcome[of opts w])
       (auto simp: finish_simps p split: option.splits if_splits)
qed

lemma body_writes:
  fixes w :: "'v world" and opts :: options
  defines "fn \<equiv> out_filename opts (choose_controllers opts (graph_of w (weighted opts)))"
  defines "d \<equiv> data (fst (body w opts))"
  shows "filter is_write (trace (fst (body w opts))) =
     (if write_flag opts \<and>
         (snd (body w opts) = None \<or> snd (body w opts) = Some (KeyError ''data''))
      then Write_json_file (fn @ ''.json'') d #
           (case map_of d ''data'' of
              None \<Rightarrow> []
            | Some v \<Rightarrow>
                Write_csv_file fn v (exclude opts) #
                (if write_dist opts then [Write_dist_csv_file (fn @ ''_dist'') v (exclude opts)]
                 else []))
      else [])"
proof -
  have p: "filter is_write (prelude w wt) = []" for wt
    by (simp add: prelude_def)
  show ?thesis unfolding fn_def d_def
    by (cases rule: body_outcome[of opts w])
       (auto simp: finish_simps p split: option.splits)
qed

text \<open>The enumerator and the duration line: when they occur, and when they do not.\<close>

lemma body_numeric_lines:
  "filter is_numeric_line (trace (fst (body w opts))) =
     (if \<not> use_prior_opts opts \<and>
         (snd (body w opts) = None \<or> snd (body w opts) = Some (KeyError ''data''))
      then [Print (Fixed6 (time_end w - time_start w))]
      else [])"
proof -
  have p: "filter is_numeric_line (prelude w wt) = []" for wt
    by (simp add: prelude_def)
  show ?thesis
    by (cases rule: body_outcome[of opts w])
       (auto simp: finish_simps p split: option.splits)
qed

lemma body_enumerator_runs:
  assumes "\<not> use_prior_opts opts"
    and "weighted opts \<longrightarrow>
           map weight (edges (OS3EWeightedGraph w)) = map Some ws \<and> sum_list ws \<noteq> 0"
  shows "\<exists>a. Run_all_combos a \<in> set (trace (fst (body w opts)))"
    and "filter is_numeric_line (trace (fst (body w opts))) =
           [Print (Fixed6 (time_end w - time_start w))]"
proof -
  have p: "filter is_numeric_line (prelude w wt) = []" for wt
    by (simp add: prelude_def)
  show "\<exists>a. Run_all_combos a \<in> set (trace (fst (body w opts)))"
    using assms
    by (cases rule: body_outcome[of opts w]) (auto simp: finish_simps)
  show "filter is_numeric_line (trace (fst (body w opts))) =
           [Print (Fixed6 (time_end w - time_start w))]"
    using assms
    by (cases rule: body_outcome[of opts w]) (auto simp: finish_simps p split: option.splits)
qed

lemma body_prior_data_unweighted:
  assumes "use_prior_opts opts" and "\<not> weighted opts"
  shows "Read_json_file ''data_out/os3e_unweighted_9_9.json'' \<in> set (trace (fst (body w opts)))"
    and "\<forall>a. Run_all_combos a \<notin> set (trace (fst (body w opts)))"
proof -
  have p: "Run_all_combos a \<notin> set (prelude w wt)" for a wt
    by (simp add: prelude_def)
  show "Read_json_file ''data_out/os3e_unweighted_9_9.json'' \<in> set (trace (fst (body w opts)))"
    using assms
    by (cases rule: body_outcome[of opts w]) (auto simp: finish_simps)
  show "\<forall>a. Run_all_combos a \<notin> set (trace (fst (body w opts)))"
    using assms body_Run_all_combos(1)[of _ w opts] by blast
qed

lemma example_parse_list:
  "parse_args example_world (defaults\<lparr>controller_list := Some ''2 5'', from_start := 9\<rparr>) =
     Inr \<lparr>from_start = 9, from_end = 0, controller_list = Some ''2 5'',
        metric = ''latency'', all_metrics = False, lat_metrics = False,
        write_flag = False, weighted = False, median = False,
        multiprocess = True, processes = 4, chunksize = 50,
        write_combos = False, write_dist = False, dist_only = True,
        use_prior_opts = False, compute_start = True, compute_end = True,
        metrics = [''latency''], controllers = Some [2, 5]\<rparr>"
  by (simp add: parse_defs)


section \<open>The failure probability handed to the enumerator\<close>

text \<open>
  C1. Whatever call of \<^verbatim>\<open>run_all_combos\<close> a run makes, the extra parameters it is
  handed have \<^verbatim>\<open>max_failures\<close> 2; in weighted mode every edge of the weighted
  topology has a weight, the weights do not sum to zero, and \<^verbatim>\<open>link_fail_prob\<close> is
  the number of edges divided by the sum of the weights, times 0.01; in unweighted mode
  \<^verbatim>\<open>link_fail_prob\<close> is 0.01.
\<close>

theorem C1_link_fail_prob_rescaled:
  assumes "Run_all_combos a \<in> set (trace (fst (Metrics_init w argv)))"
  shows "max_failures (arg_extra_params a) = 2 \<and>
         (if weighted argv
          then \<exists>ws. map weight (edges (OS3EWeightedGraph w)) = map Some ws \<and>
                 sum_list ws \<noteq> 0 \<and>
                 link_fail_prob (arg_extra_params a) =
                   real_of_int (number_of_edges (OS3EWeightedGraph w)) / sum_list ws * 0.01
          else link_fail_prob (arg_extra_params a) = 0.01)"
proof -
  from assms obtain opts where p: "parse_args w argv = Inr opts"
    and e: "Run_all_combos a \<in> set (trace (fst (body w opts)))"
    by (rule event_parsed)
  from body_Run_all_combos(12)[OF e] body_Run_all_combos_prob[OF e] parse_args_fields(8)[OF p]
  show ?thesis by simp
qed

theorem C1_link_fail_prob_rescaled_witness:
  "\<exists>a. Run_all_combos a \<in>
          set (trace (fst (Metrics_init example_world (defaults\<lparr>weighted := True\<rparr>)))) \<and>
       max_failures (arg_extra_params a) = 2 \<and>
       link_fail_prob (arg_extra_params a) = 2 / 5 * 0.01"
proof -
  let ?argv = "defaults\<lparr>weighted := True\<rparr>"
  have "\<exists>a. Run_all_combos a \<in> set (trace (fst (Metrics_init example_world ?argv)))"
    by (simp add: example_defs)
  then obtain a
    where a: "Run_all_combos a \<in> set (trace (fst (Metrics_init example_world ?argv)))" ..
  have w: "weighted ?argv" by (simp add: defaults_def)
  from C1_link_fail_prob_rescaled[OF a] w
  obtain ws where "map weight (edges (OS3EWeightedGraph example_world)) = map Some ws"
    and "max_failures (arg_extra_params a) = 2"
    and "link_fail_prob (arg_extra_params a) =
           real_of_int (number_of_edges (OS3EWeightedGraph example_world)) / sum_list ws * 0.01"
    by auto
  moreover from this(1) have "ws = [2, 3]"
    by (auto simp: example_world_def example_weighted_def map_eq_Cons_conv)
  ultimately show ?thesis using a
    by (auto simp: example_world_def example_weighted_def number_of_edges_def)
qed


section \<open>Which controller counts are evaluated\<close>

text \<open>
  C2. The controller counts handed to the enumerator are, as a set: the integers listed
  in \<^verbatim>\<open>--controller_list\<close> when that option is given and not empty, whatever the
  range options say; otherwise the union of \<open>{1..from_start}\<close> (when
  \<^verbatim>\<open>compute_start\<close> is on) and \<open>{n - from_end + 1..n}\<close> (when \<^verbatim>\<open>compute_end\<close>
  is on), \<open>n\<close> being the number of nodes of the graph that was loaded.
\<close>

theorem C2_controller_counts:
  assumes "Run_all_combos a \<in> set (trace (fst (Metrics_init w argv)))"
  shows "set (arg_controllers a) =
     (if truthy (controller_list argv)
      then {i. \<exists>t \<in> set (split_on CHR '' '' (the (controller_list argv))). py_int t = Some i}
      else
        (if compute_start argv then {1..from_start argv} else {}) \<union>
        (if compute_end argv
         then {number_of_nodes (graph_of w (weighted argv)) - from_end argv + 1 ..
               number_of_nodes (graph_of w (weighted argv))}
         else {}))"
proof -
  from assms obtain opts where p: "parse_args w argv = Inr opts"
    and e: "Run_all_combos a \<in> set (trace (fst (body w opts)))"
    by (rule event_parsed)
  note f = parse_args_fields[OF p]
  let ?g = "graph_of w (weighted argv)"
  have c: "arg_controllers a = choose_controllers opts ?g"
    using body_Run_all_combos(4)[OF e] f(8) by (simp add: graph_of_def)
  show ?thesis
  proof (cases "truthy (controller_list argv)")
    case True
    from parse_args_tokens[OF p True] obtain cs
      where cs: "parse_ints (split_on CHR '' '' (the (controller_list argv))) = Inr cs"
        and "controllers opts = Some cs" "cs \<noteq> []"
      by blast
    then have "choose_controllers opts ?g = cs"
      by (simp add: choose_controllers_def truthy_def)
    with c map_Some_set[OF parse_ints_Inr[OF cs]] True show ?thesis by simp
  next
    case False
    with parse_args_controllers[OF p] have "controllers opts = None" by simp
    then have "choose_controllers opts ?g =
        (if compute_start argv then py_range 1 (from_start argv + 1) else []) @
        (if compute_end argv
         then py_range (number_of_nodes ?g - from_end argv + 1) (number_of_nodes ?g + 1)
         else [])"
      by (simp add: choose_controllers_def truthy_def f)
    with c False show ?thesis by (auto simp: set_py_range)
  qed
qed

theorem C2_controller_counts_witness:
  "(\<exists>a. Run_all_combos a \<in> set (trace (fst (Metrics_init example_world
            (defaults\<lparr>controller_list := Some ''2 5'', from_start := 9\<rparr>)))) \<and>
        set (arg_controllers a) = {2, 5}) \<and>
   (\<exists>a. Run_all_combos a \<in> set (trace (fst (Metrics_init example_world
            (defaults\<lparr>from_start := 2, from_end := 1\<rparr>)))) \<and>
        set (arg_controllers a) = {1, 2, 3})"
proof -
  let ?l = "defaults\<lparr>controller_list := Some ''2 5'', from_start := 9\<rparr>"
  let ?r = "defaults\<lparr>from_start := 2, from_end := 1\<rparr>"
  have "\<exists>a. Run_all_combos a \<in> set (trace (fst (Metrics_init example_world ?l)))"
    by (simp add: Metrics_init_def example_parse_list) (simp add: body_defs)
  then obtain a
    where a: "Run_all_combos a \<in> set (trace (fst (Metrics_init example_world ?l)))" ..
  have "\<exists>b. Run_all_combos b \<in> set (trace (fst (Metrics_init example_world ?r)))"
    by (simp add: example_defs)
  then obtain b
    where b: "Run_all_combos b \<in> set (trace (fst (Metrics_init example_world ?r)))" ..
  have tok: "split_on CHR '' '' ''2 5'' = [''2'', ''5'']" by simp
  have i2: "py_int ''2'' = Some 2" and i5: "py_int ''5'' = Some 5"
    by (simp_all add: py_int_defs)
  have "set (arg_controllers a) = {2, 5}"
    using C2_controller_counts[OF a] tok i2 i5
    by (auto simp: defaults_def truthy_def)
  moreover have "set (arg_controllers b) = {1..2} \<union> {3..3}"
    using C2_controller_counts[OF b]
    by (simp add: defaults_def truthy_def example_world_def example_unweighted_def
        number_of_nodes_def graph_of_def)
  moreover have "{1..2} \<union> {3..3} = {1, 2, 3::int}" by auto
  ultimately show ?thesis using a b by auto
qed


section \<open>Earlier results instead of the enumerator\<close>

text \<open>
  With \<^verbatim>\<open>--use_prior_opts\<close> no run calls the enumerator or prints a duration.
\<close>

theorem prior_data_skips_enumerator:
  assumes "use_prior_opts argv"
  shows "(\<forall>a. Run_all_combos a \<notin> set (trace (fst (Metrics_init w argv)))) \<and>
         filter is_numeric_line (trace (fst (Metrics_init w argv))) = []"
proof (cases "parse_args w argv")
  case (Inl e)
  then show ?thesis by (simp add: Metrics_init_def start_def)
next
  case (Inr opts)
  with assms parse_args_fields(16)[OF Inr] body_Run_all_combos(1)[of _ w opts]
    body_numeric_lines[of w opts]
  show ?thesis by (auto simp: Metrics_init_def)
qed

theorem prior_data_skips_enumerator_witness:
  "use_prior_opts (defaults\<lparr>use_prior_opts := True\<rparr>) \<and>
   snd (Metrics_init example_world (defaults\<lparr>use_prior_opts := True\<rparr>)) = None \<and>
   filter is_numeric_line
     (trace (fst (Metrics_init example_world (defaults\<lparr>use_prior_opts := True\<rparr>)))) = []"
proof -
  let ?a = "defaults\<lparr>use_prior_opts := True\<rparr>"
  have u: "use_prior_opts ?a" by simp
  have "snd (Metrics_init example_world ?a) = None"
    by (simp add: example_defs)
  with prior_data_skips_enumerator[OF u, of example_world] u show ?thesis by simp
qed

text \<open>
  With \<^verbatim>\<open>--use_prior_opts\<close> in unweighted mode, a run whose options parse reads
  \<^verbatim>\<open>data_out/os3e_unweighted_9_9.json\<close>.
\<close>

theorem prior_data_read_when_unweighted:
  assumes "parse_args w argv = Inr options" and "use_prior_opts argv" and "\<not> weighted argv"
  shows "Read_json_file ''data_out/os3e_unweighted_9_9.json'' \<in>
           set (trace (fst (Metrics_init w argv)))"
  using assms parse_args_fields(8,16)[OF assms(1)] body_prior_data_unweighted(1)[of options w]
  by (simp add: Metrics_init_def)

theorem prior_data_read_when_unweighted_witness:
  "Read_json_file ''data_out/os3e_unweighted_9_9.json'' \<in>
     set (trace (fst (Metrics_init example_world (defaults\<lparr>use_prior_opts := True\<rparr>)))) \<and>
   data (fst (Metrics_init example_world (defaults\<lparr>use_prior_opts := True\<rparr>))) =
     [(''data'', 7)]"
proof -
  let ?a = "defaults\<lparr>use_prior_opts := True\<rparr>"
  have "\<exists>opts. parse_args example_world ?a = Inr opts"
    by (simp add: parse_defs)
  then obtain opts where p: "parse_args example_world ?a = Inr opts" ..
  have u: "use_prior_opts ?a" "\<not> weighted ?a" by (simp_all add: defaults_def)
  have "data (fst (Metrics_init example_world ?a)) = [(''data'', 7)]"
    by (simp add: example_defs)
  with prior_data_read_when_unweighted[OF p u] show ?thesis by simp
qed

text \<open>
  Without \<^verbatim>\<open>--use_prior_opts\<close>, a run whose options parse and, in weighted mode,
  whose topology has a weight on every edge and a non-zero total, calls the enumerator
  and prints exactly one numeric line: the difference of the two clock readings around
  that call, formatted with \<^verbatim>\<open>%0.6f\<close>.
\<close>

theorem enumerator_timed_once:
  assumes "parse_args w argv = Inr options" and "\<not> use_prior_opts argv"
    and "weighted argv \<longrightarrow>
           map weight (edges (OS3EWeightedGraph w)) = map Some ws \<and> sum_list ws \<noteq> 0"
  shows "(\<exists>a. Run_all_combos a \<in> set (trace (fst (Metrics_init w argv)))) \<and>
         filter is_numeric_line (trace (fst (Metrics_init w argv))) =
           [Print (Fixed6 (time_end w - time_start w))]"
  using assms parse_args_fields(8,16)[OF assms(1)] body_enumerator_runs[of options w ws]
  by (simp add: Metrics_init_def)

theorem enumerator_timed_once_witness:
  "(\<exists>a. Run_all_combos a \<in>
          set (trace (fst (Metrics_init example_world (defaults\<lparr>weighted := True\<rparr>))))) \<and>
   filter is_numeric_line
     (trace (fst (Metrics_init example_world (defaults\<lparr>weighted := True\<rparr>)))) =
     [Print (Fixed6 2)]"
proof -
  let ?a = "defaults\<lparr>weighted := True\<rparr>"
  have "\<exists>opts. parse_args example_world ?a = Inr opts"
    by (simp add: parse_defs)
  then obtain opts where p: "parse_args example_world ?a = Inr opts" ..
  have u: "\<not> use_prior_opts ?a" by (simp add: defaults_def)
  have ws: "weighted ?a \<longrightarrow>
      map weight (edges (OS3EWeightedGraph example_world)) = map Some [2, 3] \<and>
      sum_list [2, 3 :: real] \<noteq> 0"
    by (simp add: example_world_def example_weighted_def)
  from enumerator_timed_once[OF p u ws] show ?thesis
    by (simp add: example_world_def)
qed

text \<open>
  C3. The claim has the earlier results loaded whenever \<^verbatim>\<open>--use_prior_opts\<close> is set.
  With \<^verbatim>\<open>--weighted\<close> as well the run stops at line 153 on the unbound name
  \<^verbatim>\<open>PRIOR_OPTS_filename\<close>: nothing is read and the result store stays empty. Here
  is that run on the small instance.
\<close>

theorem C3_weighted_prior_data_not_loaded:
  "Metrics_init example_world (defaults\<lparr>weighted := True, use_prior_opts := True\<rparr>) =
     (\<lparr>trace = [New_OS3EWeightedGraph,
                Nx_path_index (all_pairs_dijkstra_path_length example_weighted),
                Nx_path_index (all_pairs_dijkstra_path example_weighted)],
       data = [],
       extra = \<lparr>link_fail_prob = 2 / 5 * 0.01, max_failures = 2\<rparr>\<rparr>,
      Some (UnboundLocalError ''PRIOR_OPTS_filename''))"
  by (simp add: example_defs)

text \<open>
  C4. A run with both \<^verbatim>\<open>--weighted\<close> and \<^verbatim>\<open>--use_prior_opts\<close>, on a weighted
  topology whose edges all have weights that do not sum to zero, ends with the
  unbound-name error for \<^verbatim>\<open>PRIOR_OPTS_filename\<close>; all it has done by then is build
  the graph and the path index: no file was read, the enumerator and the selectors were
  not called, nothing was written and the result store is empty.
\<close>

theorem C4_weighted_prior_data_unbound:
  assumes "parse_args w argv = Inr options"
    and "weighted argv" and "use_prior_opts argv"
    and "map weight (edges (OS3EWeightedGraph w)) = map Some ws" and "sum_list ws \<noteq> 0"
  shows "snd (Metrics_init w argv) = Some (UnboundLocalError ''PRIOR_OPTS_filename'') \<and>
         trace (fst (Metrics_init w argv)) =
           [New_OS3EWeightedGraph,
            Nx_path_index (all_pairs_dijkstra_path_length (OS3EWeightedGraph w)),
            Nx_path_index (all_pairs_dijkstra_path (OS3EWeightedGraph w))] \<and>
         data (fst (Metrics_init w argv)) = []"
proof -
  note f = parse_args_fields[OF assms(1)]
  from assms(4) have "edge_weights (edges (OS3EWeightedGraph w)) = Inr ws"
    by (rule edge_weights_Some)
  with assms(2,3,5) f(8,16) show ?thesis
    by (simp add: Metrics_init_parsed[OF assms(1)] model_defs Let_def py_sum_sum_list)
qed

theorem C4_weighted_prior_data_unbound_witness:
  "snd (Metrics_init example_world (defaults\<lparr>weighted := True, use_prior_opts := True\<rparr>)) =
     Some (UnboundLocalError ''PRIOR_OPTS_filename'') \<and>
   trace (fst (Metrics_init example_world
                 (defaults\<lparr>weighted := True, use_prior_opts := True\<rparr>))) =
     [New_OS3EWeightedGraph,
      Nx_path_index (all_pairs_dijkstra_path_length example_weighted),
      Nx_path_index (all_pairs_dijkstra_path example_weighted)] \<and>
   data (fst (Metrics_init example_world
                (defaults\<lparr>weighted := True, use_prior_opts := True\<rparr>))) = []"
proof -
  let ?argv = "defaults\<lparr>weighted := True, use_prior_opts := True\<rparr>"
  have "\<exists>opts. parse_args example_world ?argv = Inr opts"
    by (simp add: parse_defs)
  then obtain opts where p: "parse_args example_world ?argv = Inr opts" ..
  have ws: "map weight (edges (OS3EWeightedGraph example_world)) = map Some [2, 3]"
    by (simp add: example_world_def example_weighted_def)
  have "weighted ?argv" "use_prior_opts ?argv" "sum_list [2, 3 :: real] \<noteq> 0"
    by simp_all
  from C4_weighted_prior_data_unbound[OF p this(1,2) ws this(3)]
  show ?thesis by (simp add: example_world_def)
qed


section \<open>Which metrics are computed\<close>

text \<open>
  C5. The default of \<^verbatim>\<open>--metric\<close> is \<^verbatim>\<open>'latency'\<close>. The metric list set by
  \<^verbatim>\<open>parse_args\<close>, which is the list the enumerator is handed, is the whole catalogue
  with \<^verbatim>\<open>--all_metrics\<close>; otherwise \<^verbatim>\<open>['latency', 'wc_latency']\<close> with
  \<^verbatim>\<open>--lat_metrics\<close>; otherwise the one metric selected.
\<close>

theorem C5_metrics_precedence:
  fixes w :: "'v world" and argv :: option_values
  defines "ms \<equiv> if all_metrics argv then METRICS w
                else if lat_metrics argv then [''latency'', ''wc_latency'']
                else [metric argv]"
  shows "metric defaults = ''latency'' \<and>
         (\<forall>options. parse_args w argv = Inr options \<longrightarrow> metrics options = ms) \<and>
         (\<forall>a. Run_all_combos a \<in> set (trace (fst (Metrics_init w argv))) \<longrightarrow>
            arg_metrics a = ms)"
proof -
  have "arg_metrics a = ms"
    if "Run_all_combos a \<in> set (trace (fst (Metrics_init w argv)))" for a
  proof -
    from that obtain opts where p: "parse_args w argv = Inr opts"
      and e: "Run_all_combos a \<in> set (trace (fst (body w opts)))"
      by (rule event_parsed)
    from body_Run_all_combos(2)[OF e] parse_args_metrics[OF p] show ?thesis
      by (simp add: ms_def)
  qed
  moreover have "metrics options = ms" if "parse_args w argv = Inr options" for options
    using parse_args_metrics[OF that] by (simp add: ms_def)
  ultimately show ?thesis by (simp add: defaults_def)
qed

theorem C5_metrics_precedence_witness:
  "(\<exists>a. Run_all_combos a \<in> set (trace (fst (Metrics_init example_world
            (defaults\<lparr>all_metrics := True, lat_metrics := True\<rparr>)))) \<and>
        arg_metrics a = [''latency'', ''wc_latency'', ''fairness'']) \<and>
   (\<exists>a. Run_all_combos a \<in> set (trace (fst (Metrics_init example_world
            (defaults\<lparr>lat_metrics := True, metric := ''fairness''\<rparr>)))) \<and>
        arg_metrics a = [''latency'', ''wc_latency'']) \<and>
   (\<exists>a. Run_all_combos a \<in> set (trace (fst (Metrics_init example_world
            (defaults\<lparr>metric := ''fairness''\<rparr>)))) \<and>
        arg_metrics a = [''fairness''])"
proof -
  let ?x = "defaults\<lparr>all_metrics := True, lat_metrics := True\<rparr>"
  let ?y = "defaults\<lparr>lat_metrics := True, metric := ''fairness''\<rparr>"
  let ?z = "defaults\<lparr>metric := ''fairness''\<rparr>"
  have "\<exists>a. Run_all_combos a \<in> set (trace (fst (Metrics_init example_world ?x)))"
    by (simp add: example_defs)
  then obtain a
    where a: "Run_all_combos a \<in> set (trace (fst (Metrics_init example_world ?x)))" ..
  have "\<exists>b. Run_all_combos b \<in> set (trace (fst (Metrics_init example_world ?y)))"
    by (simp add: example_defs)
  then obtain b
    where b: "Run_all_combos b \<in> set (trace (fst (Metrics_init example_world ?y)))" ..
  have "\<exists>c. Run_all_combos c \<in> set (trace (fst (Metrics_init example_world ?z)))"
    by (simp add: example_defs)
  then obtain c
    where c: "Run_all_combos c \<in> set (trace (fst (Metrics_init example_world ?z)))" ..
  note t = C5_metrics_precedence[of example_world]
  have "arg_metrics a = [''latency'', ''wc_latency'', ''fairness'']"
    using t[of ?x] a by (simp add: defaults_def example_world_def)
  moreover have "arg_metrics b = [''latency'', ''wc_latency'']"
    using t[of ?y] b by (simp add: defaults_def)
  moreover have "arg_metrics c = [''fairness'']"
    using t[of ?z] c by (simp add: defaults_def)
  ultimately show ?thesis using a b c by blast
qed


section \<open>Configuration errors\<close>

text \<open>
  C6. When the metric is not in the catalogue, or a controller list is given, is not
  empty and has a token \<^verbatim>\<open>int\<close> rejects, the run ends in \<^verbatim>\<open>parse_args\<close> with an
  error (the option error in the first case, ValueError otherwise): no call has been
  made, so no topology was loaded and nothing was computed, and the result store is
  empty.
\<close>

theorem C6_configuration_errors_at_startup:
  assumes "metric argv \<notin> set (METRICS w) \<or>
           (truthy (controller_list argv) \<and>
            (\<exists>t \<in> set (split_on CHR '' '' (the (controller_list argv))). py_int t = None))"
  shows "trace (fst (Metrics_init w argv)) = [] \<and>
         data (fst (Metrics_init w argv)) = [] \<and>
         snd (Metrics_init w argv) =
           Some (if metric argv \<notin> set (METRICS w) then OptionValueError else ValueError)"
proof (cases "metric argv \<in> set (METRICS w)")
  case False
  then have "parse_args w argv = Inl OptionValueError" by (simp add: parse_args_def)
  with False show ?thesis by (simp add: Metrics_init_def start_def)
next
  case True
  with assms obtain t where tr: "truthy (controller_list argv)"
    and "t \<in> set (split_on CHR '' '' (the (controller_list argv)))" "py_int t = None"
    by blast
  then have "parse_ints (split_on CHR '' '' (the (controller_list argv))) = Inl ValueError"
    by (rule_tac parse_ints_bad)
  with True tr have "parse_args w argv = Inl ValueError" by (simp add: parse_args_def Let_def)
  with True show ?thesis by (simp add: Metrics_init_def start_def)
qed

theorem C6_configuration_errors_at_startup_witness:
  "trace (fst (Metrics_init example_world (defaults\<lparr>metric := ''speed''\<rparr>))) = [] \<and>
   snd (Metrics_init example_world (defaults\<lparr>metric := ''speed''\<rparr>)) =
     Some OptionValueError \<and>
   trace (fst (Metrics_init example_world (defaults\<lparr>controller_list := Some ''2 x''\<rparr>))) = [] \<and>
   snd (Metrics_init example_world (defaults\<lparr>controller_list := Some ''2 x''\<rparr>)) =
     Some ValueError"
proof -
  let ?m = "defaults\<lparr>metric := ''speed''\<rparr>"
  let ?c = "defaults\<lparr>controller_list := Some ''2 x''\<rparr>"
  have m: "metric ?m \<notin> set (METRICS example_world)"
    by (simp add: defaults_def example_world_def)
  have "split_on CHR '' '' ''2 x'' = [''2'', ''x'']" by simp
  moreover have "py_int ''x'' = None" by (simp add: py_int_defs)
  ultimately have c: "metric ?c \<notin> set (METRICS example_world) \<or>
     (truthy (controller_list ?c) \<and>
      (\<exists>t \<in> set (split_on CHR '' '' (the (controller_list ?c))). py_int t = None))"
    by (simp add: defaults_def truthy_def)
  have cm: "metric ?c \<in> set (METRICS example_world)"
    by (simp add: defaults_def example_world_def)
  from m have m': "metric ?m \<notin> set (METRICS example_world) \<or>
     (truthy (controller_list ?m) \<and>
      (\<exists>t \<in> set (split_on CHR '' '' (the (controller_list ?m))). py_int t = None))" ..
  from C6_configuration_errors_at_startup[OF m'] m
    C6_configuration_errors_at_startup[OF c] cm
  show ?thesis by simp
qed


section \<open>The heuristic selectors\<close>

text \<open>
  A run gets as far as the selectors exactly when it ends normally or with the KeyError
  of \<^verbatim>\<open>data["data"]\<close> in the writing step. The selector calls of a run are then,
  with \<^verbatim>\<open>--no-dist_only\<close>, exactly the nine of \<open>selector_calls\<close>, in that order:
  informed greedy; greedy by dictionary labelled \<^verbatim>\<open>'greedy-cc'\<close>, for
  \<^verbatim>\<open>'latency'\<close>, ranked by closeness centrality; the same labelled
  \<^verbatim>\<open>'greedy-dc'\<close>, ranked by degree centrality; best-n and worst-n for n = 10, 100,
  1000. In every other run there is no selector call.
\<close>

theorem selectors_when_reached:
  fixes w :: "'v world" and argv :: option_values
  defines "t \<equiv> trace (fst (Metrics_init w argv))"
  defines "reached \<equiv> snd (Metrics_init w argv) = None \<or>
                      snd (Metrics_init w argv) = Some (KeyError ''data'')"
  shows "filter is_selector t =
           (if \<not> dist_only argv \<and> reached
            then selector_calls (graph_of w (weighted argv)) (apsp_of w (weighted argv))
                   (weighted argv)
            else [])"
proof (cases "parse_args w argv")
  case (Inl e)
  with parse_args_errors[OF Inl] show ?thesis
    unfolding t_def reached_def by (auto simp: Metrics_init_def start_def)
next
  case (Inr opts)
  note f = parse_args_fields[OF Inr]
  from body_selectors[of w opts] show ?thesis
    unfolding t_def reached_def Metrics_init_parsed[OF Inr] f .
qed

theorem selectors_when_reached_witness:
  "snd (Metrics_init example_world (defaults\<lparr>dist_only := False\<rparr>)) = None \<and>
   filter is_selector (trace (fst (Metrics_init example_world (defaults\<lparr>dist_only := False\<rparr>)))) =
     selector_calls example_unweighted (all_pairs_shortest_path_length example_unweighted) False \<and>
   filter is_selector (trace (fst (Metrics_init example_world defaults))) = []"
proof -
  let ?a = "defaults\<lparr>dist_only := False\<rparr>"
  have r: "snd (Metrics_init example_world ?a) = None"
    by (simp add: example_defs)
  have d: "dist_only defaults" "\<not> dist_only ?a" "\<not> weighted ?a"
    by (simp_all add: defaults_def)
  have g: "graph_of example_world False = example_unweighted"
    "apsp_of example_world False = all_pairs_shortest_path_length example_unweighted"
    by (simp_all add: apsp_of_def graph_of_def example_world_def)
  from selectors_when_reached[of example_world ?a] r d g
  have s: "filter is_selector (trace (fst (Metrics_init example_world ?a))) =
      selector_calls example_unweighted (all_pairs_shortest_path_length example_unweighted) False"
    by simp
  from selectors_when_reached[of example_world defaults] d(1)
  have "filter is_selector (trace (fst (Metrics_init example_world defaults))) = []"
    by simp
  with r s show ?thesis by simp
qed

text \<open>
  C7. The claim has the selectors run whenever the distribution-only option is off. With
  \<^verbatim>\<open>--weighted --use_prior_opts --no-dist_only\<close> it is off, and yet no selector is
  called: the run stops at line 153 on the unbound name \<^verbatim>\<open>PRIOR_OPTS_filename\<close>,
  before line 163 is reached. Here is that run on the small instance.
\<close>

theorem C7_selectors_not_run_after_unbound_name:
  "dist_only (defaults\<lparr>weighted := True, use_prior_opts := True, dist_only := False\<rparr>) = False \<and>
   Metrics_init example_world
     (defaults\<lparr>weighted := True, use_prior_opts := True, dist_only := False\<rparr>) =
     (\<lparr>trace = [New_OS3EWeightedGraph,
                Nx_path_index (all_pairs_dijkstra_path_length example_weighted),
                Nx_path_index (all_pairs_dijkstra_path example_weighted)],
       data = [],
       extra = \<lparr>link_fail_prob = 2 / 5 * 0.01, max_failures = 2\<rparr>\<rparr>,
      Some (UnboundLocalError ''PRIOR_OPTS_filename'')) \<and>
   filter is_selector
     (trace (fst (Metrics_init example_world
                    (defaults\<lparr>weighted := True, use_prior_opts := True, dist_only := False\<rparr>)))) = []"
proof -
  let ?a = "defaults\<lparr>weighted := True, use_prior_opts := True, dist_only := False\<rparr>"
  have r: "Metrics_init example_world ?a =
     (\<lparr>trace = [New_OS3EWeightedGraph,
                Nx_path_index (all_pairs_dijkstra_path_length example_weighted),
                Nx_path_index (all_pairs_dijkstra_path example_weighted)],
       data = [],
       extra = \<lparr>link_fail_prob = 2 / 5 * 0.01, max_failures = 2\<rparr>\<rparr>,
      Some (UnboundLocalError ''PRIOR_OPTS_filename''))"
    by (simp add: example_defs)
  have "filter is_selector (trace (fst (Metrics_init example_world ?a))) = []"
    unfolding r by simp
  with r show ?thesis by simp
qed


section \<open>The path index\<close>

text \<open>
  C8. Once the options are parsed, a run computes the path index exactly once: the
  distances and then the paths, by Dijkstra on the weighted topology in weighted mode and
  by hop count otherwise. These two calls come right after the graph is built, before
  every other call. The enumerator is handed exactly these two objects, and every
  selector call is handed exactly this distance object.
\<close>

theorem C8_path_index_once:
  fixes w :: "'v world" and argv :: option_values
  defines "t \<equiv> trace (fst (Metrics_init w argv))"
  defines "apsp \<equiv> apsp_of w (weighted argv)"
  defines "apsp_paths \<equiv> apsp_paths_of w (weighted argv)"
  assumes "parse_args w argv = Inr options"
  shows "filter is_path_index_call t = [Nx_path_index apsp, Nx_path_index apsp_paths] \<and>
         take 3 t = prelude w (weighted argv) \<and>
         (\<forall>a. Run_all_combos a \<in> set t \<longrightarrow>
            arg_apsp a = apsp \<and> arg_apsp_paths a = apsp_paths) \<and>
         (\<forall>e \<in> set t. is_selector e \<longrightarrow> selector_apsp e = Some apsp)"
proof -
  note f = parse_args_fields[OF assms(4)]
  note b = Metrics_init_parsed[OF assms(4)]
  from body_path_index[of w options] body_Run_all_combos_index[of _ w options]
  show ?thesis unfolding t_def apsp_def apsp_paths_def b f by blast
qed

theorem C8_path_index_once_witness:
  "filter is_path_index_call
     (trace (fst (Metrics_init example_world (defaults\<lparr>weighted := True, dist_only := False\<rparr>)))) =
     [Nx_path_index (all_pairs_dijkstra_path_length example_weighted),
      Nx_path_index (all_pairs_dijkstra_path example_weighted)] \<and>
   take 3 (trace (fst (Metrics_init example_world
                         (defaults\<lparr>weighted := True, dist_only := False\<rparr>)))) =
     [New_OS3EWeightedGraph,
      Nx_path_index (all_pairs_dijkstra_path_length example_weighted),
      Nx_path_index (all_pairs_dijkstra_path example_weighted)] \<and>
   (\<exists>a. Run_all_combos a \<in> set (trace (fst (Metrics_init example_world
            (defaults\<lparr>weighted := True, dist_only := False\<rparr>)))) \<and>
        arg_apsp a = all_pairs_dijkstra_path_length example_weighted \<and>
        arg_apsp_paths a = all_pairs_dijkstra_path example_weighted) \<and>
   (\<exists>e \<in> set (trace (fst (Metrics_init example_world
                  (defaults\<lparr>weighted := True, dist_only := False\<rparr>)))).
      is_selector e \<and>
      selector_apsp e = Some (all_pairs_dijkstra_path_length example_weighted))"
proof -
  let ?argv = "defaults\<lparr>weighted := True, dist_only := False\<rparr>"
  let ?t = "trace (fst (Metrics_init example_world ?argv))"
  have "\<exists>opts. parse_args example_world ?argv = Inr opts"
    by (simp add: parse_defs)
  then obtain opts where p: "parse_args example_world ?argv = Inr opts" ..
  have g: "apsp_of example_world True = all_pairs_dijkstra_path_length example_weighted"
    "apsp_paths_of example_world True = all_pairs_dijkstra_path example_weighted"
    "prelude example_world True =
       [New_OS3EWeightedGraph,
        Nx_path_index (all_pairs_dijkstra_path_length example_weighted),
        Nx_path_index (all_pairs_dijkstra_path example_weighted)]"
    by (simp_all add: reading_defs example_world_def)
  have "\<exists>a. Run_all_combos a \<in> set ?t"
    by (simp add: example_defs)
  then obtain a where a: "Run_all_combos a \<in> set ?t" ..
  have "\<exists>e \<in> set ?t. is_selector e"
    by (simp add: example_defs)
  then obtain e where e: "e \<in> set ?t" "is_selector e" ..
  from C8_path_index_once[OF p] a e g show ?thesis
    by (auto simp: defaults_def)
qed


section \<open>Parallel evaluation settings\<close>

text \<open>
  C9. By default \<^verbatim>\<open>multiprocess\<close> is on, \<^verbatim>\<open>processes\<close> is 4 and
  \<^verbatim>\<open>chunksize\<close> is 50; whatever the three options are, the enumerator is handed
  exactly their values.
\<close>

theorem C9_parallel_settings:
  "multiprocess defaults \<and> processes defaults = 4 \<and> chunksize defaults = 50 \<and>
   (\<forall>a. Run_all_combos a \<in> set (trace (fst (Metrics_init w argv))) \<longrightarrow>
      arg_multiprocess a = multiprocess argv \<and>
      arg_processes a = processes argv \<and>
      arg_chunksize a = chunksize argv)"
proof -
  have "arg_multiprocess a = multiprocess argv \<and>
      arg_processes a = processes argv \<and>
      arg_chunksize a = chunksize argv"
    if "Run_all_combos a \<in> set (trace (fst (Metrics_init w argv)))" for a
  proof -
    from that obtain opts where p: "parse_args w argv = Inr opts"
      and e: "Run_all_combos a \<in> set (trace (fst (body w opts)))"
      by (rule event_parsed)
    from body_Run_all_combos(8,9,10)[OF e] parse_args_fields(10,11,12)[OF p]
    show ?thesis by simp
  qed
  then show ?thesis by (simp add: defaults_def)
qed

theorem C9_parallel_settings_witness:
  "(\<exists>a. Run_all_combos a \<in> set (trace (fst (Metrics_init example_world defaults))) \<and>
        arg_multiprocess a \<and> arg_processes a = 4 \<and> arg_chunksize a = 50) \<and>
   (\<exists>a. Run_all_combos a \<in> set (trace (fst (Metrics_init example_world
            (defaults\<lparr>multiprocess := False, processes := 7, chunksize := 3\<rparr>)))) \<and>
        \<not> arg_multiprocess a \<and> arg_processes a = 7 \<and> arg_chunksize a = 3)"
proof -
  let ?y = "defaults\<lparr>multiprocess := False, processes := 7, chunksize := 3\<rparr>"
  have "\<exists>a. Run_all_combos a \<in> set (trace (fst (Metrics_init example_world defaults)))"
    by (simp add: example_defs)
  then obtain a
    where a: "Run_all_combos a \<in> set (trace (fst (Metrics_init example_world defaults)))" ..
  have "\<exists>b. Run_all_combos b \<in> set (trace (fst (Metrics_init example_world ?y)))"
    by (simp add: example_defs)
  then obtain b
    where b: "Run_all_combos b \<in> set (trace (fst (Metrics_init example_world ?y)))" ..
  note t = C9_parallel_settings[of example_world]
  have "arg_multiprocess a \<and> arg_processes a = 4 \<and> arg_chunksize a = 50"
    using t[of defaults] a by simp
  moreover have "\<not> arg_multiprocess b \<and> arg_processes b = 7 \<and> arg_chunksize b = 3"
    using t[of ?y] b by (simp add: defaults_def)
  ultimately show ?thesis using a b by blast
qed


section \<open>Output files\<close>

text \<open>
  C10. Without \<^verbatim>\<open>--write\<close> no file is written. The distribution CSV is written only
  with both \<^verbatim>\<open>--write\<close> and \<^verbatim>\<open>--write_dist\<close>. Every CSV call leaves out the
  columns distribution, metric, group and id, and also highest_combo and lowest_combo
  unless \<^verbatim>\<open>--write_combos\<close> is set. A run with \<^verbatim>\<open>--write\<close> that ends normally
  writes the JSON file and the CSV file, and the distribution CSV as well with
  \<^verbatim>\<open>--write_dist\<close>, in that order and nothing else.
\<close>

theorem C10_outputs_only_on_request:
  fixes w :: "'v world" and argv :: option_values
  defines "t \<equiv> trace (fst (Metrics_init w argv))"
  defines "d \<equiv> data (fst (Metrics_init w argv))"
  defines "x \<equiv> [''distribution'', ''metric'', ''group'', ''id''] @
               (if write_combos argv then [] else [''highest_combo'', ''lowest_combo''])"
  shows "(\<not> write_flag argv \<longrightarrow> filter is_write t = []) \<and>
         (\<forall>f v c. Write_dist_csv_file f v c \<in> set t \<longrightarrow> write_flag argv \<and> write_dist argv) \<and>
         (\<forall>f v c. Write_csv_file f v c \<in> set t \<or> Write_dist_csv_file f v c \<in> set t \<longrightarrow>
            c = x) \<and>
         (write_flag argv \<and> snd (Metrics_init w argv) = None \<longrightarrow>
            (\<exists>f v. map_of d ''data'' = Some v \<and>
               filter is_write t =
                 [Write_json_file (f @ ''.json'') d, Write_csv_file f v x] @
                 (if write_dist argv then [Write_dist_csv_file (f @ ''_dist'') v x] else [])))"
proof (cases "parse_args w argv")
  case (Inl e)
  then show ?thesis unfolding t_def d_def x_def
    by (simp add: Metrics_init_def start_def)
next
  case (Inr opts)
  note f = parse_args_fields[OF Inr]
  note b = Metrics_init_parsed[OF Inr]
  have x: "exclude opts = x" unfolding x_def by (simp add: exclude_def f)
  note bw = body_writes[of w opts, unfolded x f, folded b, folded t_def d_def]
  have 1: "\<not> write_flag argv \<longrightarrow> filter is_write t = []"
    using bw by simp
  have 2: "write_flag argv \<and> write_dist argv" if "Write_dist_csv_file f v c \<in> set t" for f v c
  proof -
    from that have "Write_dist_csv_file f v c \<in> set (filter is_write t)" by simp
    then show ?thesis unfolding bw by (auto split: if_splits option.splits)
  qed
  have 3: "c = x"
    if "Write_csv_file f v c \<in> set t \<or> Write_dist_csv_file f v c \<in> set t" for f v c
  proof -
    from that have "Write_csv_file f v c \<in> set (filter is_write t) \<or>
        Write_dist_csv_file f v c \<in> set (filter is_write t)" by simp
    then show ?thesis unfolding bw by (auto split: if_splits option.splits)
  qed
  have 4: "\<exists>f v. map_of d ''data'' = Some v \<and>
               filter is_write t =
                 [Write_json_file (f @ ''.json'') d, Write_csv_file f v x] @
                 (if write_dist argv then [Write_dist_csv_file (f @ ''_dist'') v x] else [])"
    if "write_flag argv" "snd (Metrics_init w argv) = None"
  proof -
    have "map_of d ''data'' \<noteq> None"
      using that unfolding d_def b
      by (cases rule: body_outcome[of opts w]) (auto simp: finish_simps f split: if_splits)
    then obtain v where "map_of d ''data'' = Some v" by blast
    with that show ?thesis unfolding bw by auto
  qed
  from 1 2 3 4 show ?thesis by blast
qed

theorem C10_outputs_only_on_request_witness:
  "filter is_write (trace (fst (Metrics_init example_world defaults))) = [] \<and>
   snd (Metrics_init example_world (defaults\<lparr>write_flag := True, write_dist := True\<rparr>)) = None \<and>
   (\<exists>f v d. filter is_write (trace (fst (Metrics_init example_world
                (defaults\<lparr>write_flag := True, write_dist := True\<rparr>)))) =
      [Write_json_file (f @ ''.json'') d,
       Write_csv_file f v
         [''distribution'', ''metric'', ''group'', ''id'', ''highest_combo'', ''lowest_combo''],
       Write_dist_csv_file (f @ ''_dist'') v
         [''distribution'', ''metric'', ''group'', ''id'', ''highest_combo'', ''lowest_combo'']])"
proof -
  let ?a = "defaults\<lparr>write_flag := True, write_dist := True\<rparr>"
  have r: "snd (Metrics_init example_world ?a) = None"
    by (simp add: example_defs)
  have d: "\<not> write_flag defaults" "write_flag ?a" "write_dist ?a" "\<not> write_combos ?a"
    by (simp_all add: defaults_def)
  from C10_outputs_only_on_request[of defaults example_world] d(1)
  have "filter is_write (trace (fst (Metrics_init example_world defaults))) = []"
    by blast
  moreover from C10_outputs_only_on_request[of ?a example_world] r d(2,3,4)
  have "\<exists>f v d. filter is_write (trace (fst (Metrics_init example_world ?a))) =
      [Write_json_file (f @ ''.json'') d,
       Write_csv_file f v
         [''distribution'', ''metric'', ''group'', ''id'', ''highest_combo'', ''lowest_combo''],
       Write_dist_csv_file (f @ ''_dist'') v
         [''distribution'', ''metric'', ''group'', ''id'', ''highest_combo'', ''lowest_combo'']]"
    by auto
  ultimately show ?thesis using r by blast
qed

end
